theory Spec2Isabelle
  imports Complex_Main "HOL-Library.Product_Lexorder"
begin

section \<open>Data model of the single-type navigator\<close>

text \<open>
  The embedding follows \<^verbatim>\<open>tools/single_type_navigator.hpp\<close> function by function. The
  headers it includes (\<^verbatim>\<open>core/intersection.hpp\<close>, \<^verbatim>\<open>tools/intersection_kernel.hpp\<close>,
  \<^verbatim>\<open>utils/indexing.hpp\<close>), the track type and the geometry containers are not among the
  sources: the types they declare are given by the fields the navigator uses, and their
  functions are parameters of the model.
\<close>

type_synonym dindex = nat
type_synonym scalar = real

text \<open>
  The two links of an object (next volume, next object finder); the navigator reads
  entry 0 only.
\<close>
type_synonym link_t = "dindex \<times> dindex"

text \<open>
  Modelled from the spec: the "invalid" sentinel \<^verbatim>\<open>dindex_invalid\<close>, whose declaration
  (\<^verbatim>\<open>utils/indexing.hpp\<close>) is missing. Only equality with it matters; the largest 64-bit
  value stands for it.
\<close>
definition dindex_invalid :: dindex where
  "dindex_invalid = 2 ^ 64 - 1"

text \<open>
  Modelled from the spec: the classification of an intersection (declared in the missing
  \<^verbatim>\<open>core/intersection.hpp\<close>); the navigator only asks whether it is \<^verbatim>\<open>e_inside\<close>.
\<close>
datatype intersection_status = e_outside | e_inside

datatype navigation_status =
  e_on_target | e_abort | e_unknown | e_towards_object | e_on_object

datatype navigation_trust_level =
  e_no_trust | e_fair_trust | e_high_trust | e_full_trust

text \<open>
  The fields of \<^verbatim>\<open>intersection\<close> that the navigator reads and writes. The field
  \<^verbatim>\<open>status\<close> is called \<open>istatus\<close> here, since \<open>status\<close> is the navigator's operation.
\<close>
record intersection =
  index :: dindex
  path :: scalar
  istatus :: intersection_status
  link :: dindex

text \<open>The track as the test fills it; the navigator reads the overstep tolerance.\<close>
record track =
  pos :: "scalar \<times> scalar \<times> scalar"
  dir :: "scalar \<times> scalar \<times> scalar"
  momentum :: scalar
  overstep_tolerance :: scalar

text \<open>
  The containers and the intersection primitive, as parameters: \<open>full_range\<close> is
  \<^verbatim>\<open>_volumes[v].full_range()\<close>, \<open>edge\<close> is \<^verbatim>\<open>_objects[i].edge()\<close>, and \<open>intersect\<close> is the
  call \<^verbatim>\<open>intersect(track, obj, _transforms, _masks, navigation.nav_links())\<close>, which
  receives the state's links by reference and so returns them as well.
\<close>
record detector =
  full_range :: "dindex \<Rightarrow> dindex \<times> dindex"
  edge :: "dindex \<Rightarrow> link_t"
  intersect :: "track \<Rightarrow> dindex \<Rightarrow> link_t \<Rightarrow> intersection \<times> link_t"

text \<open>
  The distance to next is a scalar that starts at infinity; the reals have no such
  value, so it is a constructor of its own.
\<close>
datatype distance = Infinity | Finite scalar

fun dist_less :: "distance \<Rightarrow> scalar \<Rightarrow> bool" where
  "dist_less Infinity t = False"
| "dist_less (Finite d) t = (d < t)"

text \<open>
  \<^verbatim>\<open>struct navigation_kernel\<close>. The iterator \<^verbatim>\<open>next\<close> is the position \<open>nxt\<close>; the end is
  the length of the candidates. The pointer \<^verbatim>\<open>on\<close> is only ever reset.
\<close>
record navigation_kernel =
  on_obj :: "dindex option"
  candidates :: "intersection list"
  nxt :: nat

text \<open>\<^verbatim>\<open>class state\<close>, without the inspector. The field \<^verbatim>\<open>status\<close> is \<open>nav_status\<close>.\<close>
record state =
  kernel :: navigation_kernel
  volume_index :: dindex
  distance_to_next :: distance
  on_object_tolerance :: scalar
  nav_status :: navigation_status
  object_index :: dindex
  links :: link_t
  trust_level :: navigation_trust_level

section \<open>Kernel and state operations\<close>

definition kernel_empty :: "navigation_kernel \<Rightarrow> bool" where
  "kernel_empty k = (candidates k = [])"

definition kernel_size :: "navigation_kernel \<Rightarrow> nat" where
  "kernel_size k = length (candidates k)"

text \<open>\<^verbatim>\<open>navigation_kernel::clear()\<close>: the occupied index of the state is not touched.\<close>
definition clear :: "navigation_kernel \<Rightarrow> navigation_kernel" where
  "clear k = k\<lparr>candidates := [], nxt := 0, on_obj := None\<rparr>"

definition is_exhausted :: "navigation_kernel \<Rightarrow> bool" where
  "is_exhausted k = (nxt k = length (candidates k))"

text \<open>The member initialisers of \<^verbatim>\<open>class state\<close>; the links are value-initialised.\<close>
definition default_state :: state where
  "default_state =
     \<lparr>kernel = \<lparr>on_obj = None, candidates = [], nxt = 0\<rparr>,
      volume_index = dindex_invalid, distance_to_next = Infinity,
      on_object_tolerance = 1 / 1000, nav_status = e_unknown,
      object_index = dindex_invalid, links = (0, 0), trust_level = e_no_trust\<rparr>"

definition set_initial_volume :: "dindex \<Rightarrow> state \<Rightarrow> state" where
  "set_initial_volume initial_volume s = s\<lparr>volume_index := initial_volume\<rparr>"

definition set_tolerance :: "scalar \<Rightarrow> state \<Rightarrow> state" where
  "set_tolerance tol s = s\<lparr>on_object_tolerance := tol\<rparr>"

definition set_trust_level :: "navigation_trust_level \<Rightarrow> state \<Rightarrow> state" where
  "set_trust_level lvl s = s\<lparr>trust_level := lvl\<rparr>"

text \<open>\<^verbatim>\<open>abort()\<close> and \<^verbatim>\<open>exit()\<close>; the first returns false, the second true.\<close>
definition abort :: "state \<Rightarrow> state" where
  "abort s = s\<lparr>nav_status := e_abort, trust_level := e_no_trust\<rparr>"

definition exit :: "state \<Rightarrow> state" where
  "exit s = s\<lparr>nav_status := e_on_target, trust_level := e_full_trust\<rparr>"

section \<open>Sorting and the cursor\<close>

text \<open>
  Modelled from the spec: the order of intersections (\<^verbatim>\<open>operator<\<close> is declared in the
  missing \<^verbatim>\<open>core/intersection.hpp\<close>): path length ascending, ties by surface identifier
  ascending. \<^verbatim>\<open>std::sort\<close> is the sort by this key.
\<close>
definition cand_key :: "intersection \<Rightarrow> scalar \<times> dindex" where
  "cand_key c = (path c, index c)"

definition sort_candidates :: "intersection list \<Rightarrow> intersection list" where
  "sort_candidates cs = sort_key cand_key cs"

text \<open>
  \<^verbatim>\<open>sort_and_set\<close>. On a kernel with candidates: full trust, sort, cursor at the
  beginning; if the distance to next, as the state still holds it, is below the
  tolerance, the first candidate becomes the occupied object, the cursor moves on by one
  and the trust is high; otherwise no object is occupied. Then the status is
  towards-object and the distance is the path of the cursor's candidate. That last read
  dereferences the cursor: at the end of the candidates the behaviour is undefined, which
  is the result \<open>None\<close>. Without candidates: abort.
\<close>
definition sort_and_set :: "state \<Rightarrow> state option" where
  "sort_and_set s =
     (if candidates (kernel s) \<noteq> [] then
        let cs = sort_candidates (candidates (kernel s));
            s1 = s\<lparr>trust_level := e_full_trust,
                   kernel := (kernel s)\<lparr>candidates := cs, nxt := 0\<rparr>\<rparr>;
            s2 = (if dist_less (distance_to_next s1) (on_object_tolerance s1)
                  then s1\<lparr>object_index := index (cs ! 0),
                          kernel := (kernel s1)\<lparr>nxt := Suc 0\<rparr>,
                          trust_level := e_high_trust\<rparr>
                  else s1\<lparr>object_index := dindex_invalid\<rparr>)
        in if nxt (kernel s2) < length cs
           then Some (s2\<lparr>nav_status := e_towards_object,
                         distance_to_next := Finite (path (cs ! nxt (kernel s2)))\<rparr>)
           else None
      else Some (abort s))"

section \<open>Kernel update\<close>

text \<open>
  The loop of \<^verbatim>\<open>initialize_kernel\<close> over the object indices of the range. A candidate
  behind the overstep tolerance is dropped; one that is inside and is not the occupied
  object is appended to the candidates the kernel already holds.
\<close>
fun scan_objects :: "detector \<Rightarrow> track \<Rightarrow> dindex list \<Rightarrow> state \<Rightarrow> state" where
  "scan_objects G trk [] s = s"
| "scan_objects G trk (obj_idx # rest) s =
     (let (sfi, lnk) = intersect G trk obj_idx (links s);
          s1 = s\<lparr>links := lnk\<rparr>
      in if path sfi < overstep_tolerance trk then scan_objects G trk rest s1
         else if istatus sfi = e_inside \<and> obj_idx \<noteq> object_index s1
         then scan_objects G trk rest
                (s1\<lparr>nav_status := e_towards_object,
                    kernel := (kernel s1)\<lparr>candidates := candidates (kernel s1)
                       @ [sfi\<lparr>index := obj_idx, link := fst (edge G obj_idx)\<rparr>]\<rparr>\<rparr>)
         else scan_objects G trk rest s1)"

definition initialize_kernel ::
  "detector \<Rightarrow> track \<Rightarrow> dindex \<times> dindex \<Rightarrow> state \<Rightarrow> state option" where
  "initialize_kernel G trk obj_range s =
     sort_and_set (scan_objects G trk [fst obj_range..<snd obj_range] s)"

text \<open>
  The loop of the fair-trust branch: every candidate is replaced by its new
  intersection, whatever that is; its link is entry 0 of the state's links.
\<close>
fun reintersect ::
  "detector \<Rightarrow> track \<Rightarrow> intersection list \<Rightarrow> link_t \<Rightarrow> intersection list \<times> link_t" where
  "reintersect G trk [] lnk = ([], lnk)"
| "reintersect G trk (candidate # rest) lnk =
     (let (sfi, lnk1) = intersect G trk (index candidate) lnk;
          c1 = sfi\<lparr>index := index candidate, link := fst lnk1\<rparr>;
          (rest1, lnk2) = reintersect G trk rest lnk1
      in (c1 # rest1, lnk2))"

text \<open>
  The loop of the branch for high and full trust. The candidate at the cursor is
  intersected again; if it is inside and not the occupied object it is written back
  with the distance, on-object (trust high) within the tolerance and towards-object
  (trust full) beyond it, and the update returns. Otherwise the cursor moves on. When
  the kernel is exhausted the loop ends and the update falls through to \<^verbatim>\<open>abort()\<close>. A
  cursor beyond the end is no iterator of the kernel: \<open>None\<close>.
\<close>
function update_next :: "detector \<Rightarrow> track \<Rightarrow> state \<Rightarrow> state option" where
  "update_next G trk s =
     (if is_exhausted (kernel s) then Some (abort s)
      else if length (candidates (kernel s)) < nxt (kernel s) then None
      else
        let obj_idx = index (candidates (kernel s) ! nxt (kernel s));
            (sfi0, lnk) = intersect G trk obj_idx (links s);
            sfi = sfi0\<lparr>index := obj_idx, link := fst (edge G obj_idx)\<rparr>;
            s1 = s\<lparr>links := lnk\<rparr>
        in if istatus sfi = e_inside \<and> obj_idx \<noteq> object_index s1 then
             let s2 = s1\<lparr>kernel := (kernel s1)\<lparr>candidates :=
                            (candidates (kernel s1))[nxt (kernel s1) := sfi]\<rparr>,
                        distance_to_next := Finite (path sfi)\<rparr>
             in if \<bar>path sfi\<bar> < on_object_tolerance s2
                then Some (s2\<lparr>object_index := obj_idx, nav_status := e_on_object,
                              trust_level := e_high_trust\<rparr>)
                else Some (s2\<lparr>nav_status := e_towards_object,
                              trust_level := e_full_trust\<rparr>)
           else update_next G trk (s1\<lparr>kernel := (kernel s1)\<lparr>nxt := Suc (nxt (kernel s1))\<rparr>\<rparr>))"
  by pat_completeness auto
termination
  by (relation "measure (\<lambda>(G, trk, s). length (candidates (kernel s)) - nxt (kernel s))")
     (auto simp add: is_exhausted_def)

text \<open>
  \<^verbatim>\<open>update_kernel\<close>: no trust initialises; high and full trust (\<^verbatim>\<open>>= e_high_trust\<close>) run
  the cursor loop; fair trust re-intersects all candidates and sorts.
\<close>
definition update_kernel ::
  "detector \<Rightarrow> track \<Rightarrow> dindex \<times> dindex \<Rightarrow> state \<Rightarrow> state option" where
  "update_kernel G trk obj_range s =
     (case trust_level s of
        e_no_trust \<Rightarrow> initialize_kernel G trk obj_range s
      | e_high_trust \<Rightarrow> update_next G trk s
      | e_full_trust \<Rightarrow> update_next G trk s
      | e_fair_trust \<Rightarrow>
          (let (cs, lnk) = reintersect G trk (candidates (kernel s)) (links s)
           in sort_and_set (s\<lparr>kernel := (kernel s)\<lparr>candidates := cs\<rparr>, links := lnk\<rparr>)))"

section \<open>Volume switch and the two public operations\<close>

text \<open>
  \<^verbatim>\<open>check_volume_switch\<close>. On an object whose cursor candidate links to another volume:
  take that volume, clear the kernel, no trust; at the invalid volume, \<^verbatim>\<open>exit()\<close>. The
  link is read through the cursor, so with the status on-object and the cursor at the
  end the behaviour is undefined.
\<close>
definition check_volume_switch :: "state \<Rightarrow> state option" where
  "check_volume_switch s =
     (if nav_status s = e_on_object then
        (if nxt (kernel s) < length (candidates (kernel s)) then
           (if volume_index s \<noteq> link (candidates (kernel s) ! nxt (kernel s)) then
              let s1 = s\<lparr>volume_index := link (candidates (kernel s) ! nxt (kernel s)),
                         kernel := clear (kernel s), trust_level := e_no_trust\<rparr>
              in Some (if volume_index s1 = dindex_invalid then exit s1 else s1)
            else Some s)
         else None)
      else Some s)"

text \<open>
  What \<^verbatim>\<open>status\<close> and \<^verbatim>\<open>target\<close> do after the kernel update: an empty kernel aborts with
  heartbeat false; otherwise the volume-switch check runs and the heartbeat is true. The
  void inspector does nothing.
\<close>
definition finish :: "state option \<Rightarrow> (bool \<times> state) option" where
  "finish r =
     (case r of
        None \<Rightarrow> None
      | Some s1 \<Rightarrow>
          if kernel_empty (kernel s1) then Some (False, abort s1)
          else (case check_volume_switch s1 of
                  None \<Rightarrow> None
                | Some s2 \<Rightarrow> Some (True, s2)))"

definition status :: "detector \<Rightarrow> state \<Rightarrow> track \<Rightarrow> (bool \<times> state) option" where
  "status G s trk = finish (update_kernel G trk (full_range G (volume_index s)) s)"

text \<open>The exhaustion recovery at the head of \<^verbatim>\<open>target\<close>.\<close>
definition reset_if_exhausted :: "state \<Rightarrow> state" where
  "reset_if_exhausted s =
     (if is_exhausted (kernel s)
      then s\<lparr>kernel := clear (kernel s), trust_level := e_no_trust\<rparr> else s)"

definition target :: "detector \<Rightarrow> state \<Rightarrow> track \<Rightarrow> (bool \<times> state) option" where
  "target G s trk =
     (if trust_level s = e_full_trust then Some (True, s)
      else finish (update_kernel G trk (full_range G (volume_index s))
                     (reset_if_exhausted s)))"

section \<open>Predicates of the statements\<close>



text \<open>
  The cursor loop has stopped on a valid candidate: the cursor is inside the kernel, and
  its candidate is inside, not the object occupied before, freshly intersected, and
  decides status and trust by the on-object tolerance.
\<close>
definition found :: "detector \<Rightarrow> track \<Rightarrow> state \<Rightarrow> state \<Rightarrow> bool" where
  "found G trk s u =
     (nxt (kernel u) < length (candidates (kernel u))
      \<and> (let c = candidates (kernel u) ! nxt (kernel u) in
           istatus c = e_inside \<and> index c \<noteq> object_index s
         \<and> link c = fst (edge G (index c))
         \<and> (\<exists>lnk. path c = path (fst (intersect G trk (index c) lnk)))
         \<and> distance_to_next u = Finite (path c)
         \<and> volume_index u = volume_index s
         \<and> (if \<bar>path c\<bar> < on_object_tolerance s
             then nav_status u = e_on_object \<and> trust_level u = e_high_trust
                  \<and> object_index u = index c
             else nav_status u = e_towards_object \<and> trust_level u = e_full_trust
                  \<and> object_index u = object_index s)))"

text \<open>
  The invariant as the specification words it: every stored candidate is inside and not
  behind the overstep tolerance of the track; the entries at or after the cursor are
  sorted by path length, ties by surface identifier.
\<close>
definition kernel_valid :: "track \<Rightarrow> state \<Rightarrow> bool" where
  "kernel_valid trk s =
     (\<forall>c \<in> set (candidates (kernel s)).
        overstep_tolerance trk \<le> path c \<and> istatus c = e_inside)"

definition kernel_sorted :: "state \<Rightarrow> bool" where
  "kernel_sorted s =
     sorted (map cand_key (drop (nxt (kernel s)) (candidates (kernel s))))"

definition kernel_invariant :: "track \<Rightarrow> state \<Rightarrow> bool" where
  "kernel_invariant trk s = (kernel_valid trk s \<and> kernel_sorted s)"

section \<open>A small geometry for concrete runs\<close>

text \<open>
  Two volumes on a straight line, shaped after the run of the test: volume 0 holds the
  portal 0 at 27, which leads to volume 1; volume 1 holds the adjacent portal 1 at 27
  (back to volume 0), the sensitive surface 2 at 30 and the portal 3 at 40, which leaves
  the world. The track moves along the first axis. Surface 2 is missed (outside) once
  the track is past it, portal 3 is missed by a track off the axis. Any other volume
  holds no surface. The primitive leaves the edge of the object in the links.
\<close>
definition toy_track :: "scalar \<Rightarrow> track" where
  "toy_track x = \<lparr>pos = (x, 0, 0), dir = (1, 0, 0), momentum = 100,
                  overstep_tolerance = - (1 / 10000)\<rparr>"

definition toy_track_off :: "scalar \<Rightarrow> track" where
  "toy_track_off x = \<lparr>pos = (x, 10, 0), dir = (1, 0, 0), momentum = 100,
                      overstep_tolerance = - (1 / 10000)\<rparr>"

definition toy_position :: "dindex \<Rightarrow> scalar" where
  "toy_position i = (if i = 0 then 27 else if i = 1 then 27 else if i = 2 then 30 else 40)"

definition toy_edge :: "dindex \<Rightarrow> link_t" where
  "toy_edge i = (if i = 0 then (1, 0) else if i = 1 then (0, 0) else if i = 2 then (1, 0)
                 else (dindex_invalid, 0))"

definition toy_intersect :: "track \<Rightarrow> dindex \<Rightarrow> link_t \<Rightarrow> intersection \<times> link_t" where
  "toy_intersect t i lnk =
     (\<lparr>index = dindex_invalid, path = toy_position i - fst (pos t),
       istatus = (if i = 2 \<and> toy_position i < fst (pos t) \<or> i = 3 \<and> fst (snd (pos t)) \<noteq> 0
                  then e_outside else e_inside),
       link = dindex_invalid\<rparr>, toy_edge i)"

definition toy_detector :: detector where
  "toy_detector =
     \<lparr>full_range = (\<lambda>v. if v = 0 then (0, 1) else if v = 1 then (1, 4) else (0, 0)),
      edge = toy_edge, intersect = toy_intersect\<rparr>"

text \<open>The fresh state of the test, initial volume 0.\<close>
definition toy_start :: state where
  "toy_start = set_initial_volume 0 default_state"

text \<open>After the first status call at 0: towards portal 0, full trust.\<close>
definition toy_state1 :: state where
  "toy_state1 =
     \<lparr>kernel = \<lparr>on_obj = None,
         candidates = [\<lparr>index = 0, path = 27, istatus = e_inside, link = 1\<rparr>], nxt = 0\<rparr>,
      volume_index = 0, distance_to_next = Finite 27,
      on_object_tolerance = 1 / 1000, nav_status = e_towards_object,
      object_index = dindex_invalid, links = (1, 0), trust_level = e_full_trust\<rparr>"

text \<open>After half the step, trust set to high, and status: towards portal 0 again.\<close>
definition toy_state2 :: state where
  "toy_state2 =
     \<lparr>kernel = \<lparr>on_obj = None,
         candidates = [\<lparr>index = 0, path = 27 / 2, istatus = e_inside, link = 1\<rparr>], nxt = 0\<rparr>,
      volume_index = 0, distance_to_next = Finite (27 / 2),
      on_object_tolerance = 1 / 1000, nav_status = e_towards_object,
      object_index = dindex_invalid, links = (1, 0), trust_level = e_full_trust\<rparr>"

text \<open>The kernel update on portal 0, before the volume-switch check.\<close>
definition toy_on_portal :: state where
  "toy_on_portal =
     \<lparr>kernel = \<lparr>on_obj = None,
         candidates = [\<lparr>index = 0, path = 0, istatus = e_inside, link = 1\<rparr>], nxt = 0\<rparr>,
      volume_index = 0, distance_to_next = Finite 0,
      on_object_tolerance = 1 / 1000, nav_status = e_on_object,
      object_index = 0, links = (1, 0), trust_level = e_high_trust\<rparr>"

text \<open>After the status call on portal 0: volume 1, kernel cleared, no trust.\<close>
definition toy_entered :: state where
  "toy_entered =
     \<lparr>kernel = \<lparr>on_obj = None, candidates = [], nxt = 0\<rparr>,
      volume_index = 1, distance_to_next = Finite 0,
      on_object_tolerance = 1 / 1000, nav_status = e_on_object,
      object_index = 0, links = (1, 0), trust_level = e_no_trust\<rparr>"

text \<open>After the target call in volume 1: the adjacent portal skipped, high trust.\<close>
definition toy_scanned :: state where
  "toy_scanned =
     \<lparr>kernel = \<lparr>on_obj = None, candidates =
         [\<lparr>index = 1, path = 0, istatus = e_inside, link = 0\<rparr>,
          \<lparr>index = 2, path = 3, istatus = e_inside, link = 1\<rparr>,
          \<lparr>index = 3, path = 13, istatus = e_inside, link = dindex_invalid\<rparr>],
         nxt = 1\<rparr>,
      volume_index = 1, distance_to_next = Finite 3,
      on_object_tolerance = 1 / 1000, nav_status = e_towards_object,
      object_index = 1, links = (dindex_invalid, 0), trust_level = e_high_trust\<rparr>"

text \<open>After the status call on surface 2.\<close>
definition toy_on_surface :: state where
  "toy_on_surface =
     \<lparr>kernel = \<lparr>on_obj = None, candidates =
         [\<lparr>index = 1, path = 0, istatus = e_inside, link = 0\<rparr>,
          \<lparr>index = 2, path = 0, istatus = e_inside, link = 1\<rparr>,
          \<lparr>index = 3, path = 13, istatus = e_inside, link = dindex_invalid\<rparr>],
         nxt = 1\<rparr>,
      volume_index = 1, distance_to_next = Finite 0,
      on_object_tolerance = 1 / 1000, nav_status = e_on_object,
      object_index = 2, links = (1, 0), trust_level = e_high_trust\<rparr>"

text \<open>After the next target call: towards the exit portal 3, full trust.\<close>
definition toy_towards_exit :: state where
  "toy_towards_exit =
     \<lparr>kernel = \<lparr>on_obj = None, candidates =
         [\<lparr>index = 1, path = 0, istatus = e_inside, link = 0\<rparr>,
          \<lparr>index = 2, path = 0, istatus = e_inside, link = 1\<rparr>,
          \<lparr>index = 3, path = 10, istatus = e_inside, link = dindex_invalid\<rparr>],
         nxt = 2\<rparr>,
      volume_index = 1, distance_to_next = Finite 10,
      on_object_tolerance = 1 / 1000, nav_status = e_towards_object,
      object_index = 2, links = (dindex_invalid, 0), trust_level = e_full_trust\<rparr>"

text \<open>The kernel update on portal 3, before the volume-switch check.\<close>
definition toy_on_exit_portal :: state where
  "toy_on_exit_portal =
     \<lparr>kernel = \<lparr>on_obj = None, candidates =
         [\<lparr>index = 1, path = 0, istatus = e_inside, link = 0\<rparr>,
          \<lparr>index = 2, path = 0, istatus = e_inside, link = 1\<rparr>,
          \<lparr>index = 3, path = 0, istatus = e_inside, link = dindex_invalid\<rparr>],
         nxt = 2\<rparr>,
      volume_index = 1, distance_to_next = Finite 0,
      on_object_tolerance = 1 / 1000, nav_status = e_on_object,
      object_index = 3, links = (dindex_invalid, 0), trust_level = e_high_trust\<rparr>"

text \<open>After the status call on portal 3: outside the world.\<close>
definition toy_exit :: state where
  "toy_exit =
     \<lparr>kernel = \<lparr>on_obj = None, candidates = [], nxt = 0\<rparr>,
      volume_index = dindex_invalid, distance_to_next = Finite 0,
      on_object_tolerance = 1 / 1000, nav_status = e_on_target,
      object_index = 3, links = (dindex_invalid, 0), trust_level = e_full_trust\<rparr>"

text \<open>A fresh state whose first status call finds the track on portal 0 already.\<close>
definition toy_fresh_on_portal :: state where
  "toy_fresh_on_portal =
     \<lparr>kernel = \<lparr>on_obj = None,
         candidates = [\<lparr>index = 0, path = 0, istatus = e_inside, link = 1\<rparr>], nxt = 0\<rparr>,
      volume_index = 0, distance_to_next = Finite 0,
      on_object_tolerance = 1 / 1000, nav_status = e_towards_object,
      object_index = dindex_invalid, links = (1, 0), trust_level = e_full_trust\<rparr>"

text \<open>The target call in volume 1 when the track has moved on to 28 meanwhile.\<close>
definition toy_skipped :: state where
  "toy_skipped =
     \<lparr>kernel = \<lparr>on_obj = None, candidates =
         [\<lparr>index = 2, path = 2, istatus = e_inside, link = 1\<rparr>,
          \<lparr>index = 3, path = 12, istatus = e_inside, link = dindex_invalid\<rparr>],
         nxt = 1\<rparr>,
      volume_index = 1, distance_to_next = Finite 12,
      on_object_tolerance = 1 / 1000, nav_status = e_towards_object,
      object_index = 2, links = (dindex_invalid, 0), trust_level = e_high_trust\<rparr>"

text \<open>On surface 2 the track is deflected and misses portal 3: the cursor loop runs out.\<close>
definition toy_lost :: state where
  "toy_lost =
     \<lparr>kernel = \<lparr>on_obj = None, candidates =
         [\<lparr>index = 1, path = 0, istatus = e_inside, link = 0\<rparr>,
          \<lparr>index = 2, path = 0, istatus = e_inside, link = 1\<rparr>,
          \<lparr>index = 3, path = 13, istatus = e_inside, link = dindex_invalid\<rparr>],
         nxt = 3\<rparr>,
      volume_index = 1, distance_to_next = Finite 0,
      on_object_tolerance = 1 / 1000, nav_status = e_abort,
      object_index = 2, links = (dindex_invalid, 0), trust_level = e_no_trust\<rparr>"

text \<open>The target call after that, back at 27: surface 2 is still the occupied object.\<close>
definition toy_rescanned :: state where
  "toy_rescanned =
     \<lparr>kernel = \<lparr>on_obj = None, candidates =
         [\<lparr>index = 1, path = 0, istatus = e_inside, link = 0\<rparr>,
          \<lparr>index = 3, path = 13, istatus = e_inside, link = dindex_invalid\<rparr>],
         nxt = 1\<rparr>,
      volume_index = 1, distance_to_next = Finite 13,
      on_object_tolerance = 1 / 1000, nav_status = e_towards_object,
      object_index = 1, links = (dindex_invalid, 0), trust_level = e_high_trust\<rparr>"

text \<open>A status call on the scanned kernel after the caller has set no trust.\<close>
definition toy_appended :: state where
  "toy_appended =
     \<lparr>kernel = \<lparr>on_obj = None, candidates =
         [\<lparr>index = 1, path = 0, istatus = e_inside, link = 0\<rparr>,
          \<lparr>index = 2, path = 3, istatus = e_inside, link = 1\<rparr>,
          \<lparr>index = 2, path = 3, istatus = e_inside, link = 1\<rparr>,
          \<lparr>index = 3, path = 13, istatus = e_inside, link = dindex_invalid\<rparr>,
          \<lparr>index = 3, path = 13, istatus = e_inside, link = dindex_invalid\<rparr>],
         nxt = 0\<rparr>,
      volume_index = 1, distance_to_next = Finite 0,
      on_object_tolerance = 1 / 1000, nav_status = e_towards_object,
      object_index = dindex_invalid, links = (dindex_invalid, 0), trust_level = e_full_trust\<rparr>"

text \<open>A status call on the scanned kernel at fair trust, the track at 35.\<close>
definition toy_refreshed :: state where
  "toy_refreshed =
     \<lparr>kernel = \<lparr>on_obj = None, candidates =
         [\<lparr>index = 1, path = - 8, istatus = e_inside, link = 0\<rparr>,
          \<lparr>index = 2, path = - 5, istatus = e_outside, link = 1\<rparr>,
          \<lparr>index = 3, path = 5, istatus = e_inside, link = dindex_invalid\<rparr>],
         nxt = 0\<rparr>,
      volume_index = 1, distance_to_next = Finite (- 8),
      on_object_tolerance = 1 / 1000, nav_status = e_towards_object,
      object_index = dindex_invalid, links = (dindex_invalid, 0), trust_level = e_full_trust\<rparr>"

text \<open>The state just entered into volume 1, with a wider tolerance set by the caller.\<close>
definition toy_entered_wide :: state where
  "toy_entered_wide = set_tolerance (1 / 100) toy_entered"

text \<open>A fresh state in volume 2, which holds no surface.\<close>
definition toy_empty_volume :: state where
  "toy_empty_volume = set_initial_volume 2 default_state"

section \<open>Auxiliary facts\<close>

declare update_next.simps [simp del]

lemmas toy_defs = toy_track_def toy_track_off_def toy_position_def toy_edge_def
  toy_intersect_def toy_detector_def toy_start_def toy_state1_def toy_state2_def
  toy_on_portal_def toy_entered_def toy_scanned_def toy_on_surface_def toy_towards_exit_def
  toy_on_exit_portal_def toy_exit_def toy_fresh_on_portal_def toy_skipped_def toy_lost_def
  toy_rescanned_def toy_appended_def toy_refreshed_def toy_entered_wide_def
  toy_empty_volume_def

lemmas nav_defs = update_kernel_def initialize_kernel_def sort_and_set_def clear_def
  kernel_empty_def sort_candidates_def cand_key_def check_volume_switch_def status_def
  target_def finish_def reset_if_exhausted_def is_exhausted_def abort_def exit_def
  set_initial_volume_def set_tolerance_def default_state_def set_trust_level_def
  dindex_invalid_def Let_def upt_conv_Cons update_next.simps
  kernel_invariant_def kernel_valid_def kernel_sorted_def

lemma sort_candidates_Nil [simp]: "(sort_candidates cs = []) = (cs = [])"
  by (metis length_0_conv length_sort sort_candidates_def)

lemma length_sort_candidates [simp]: "length (sort_candidates cs) = length cs"
  by (simp add: sort_candidates_def)

lemma set_sort_candidates [simp]: "set (sort_candidates cs) = set cs"
  by (simp add: sort_candidates_def)


lemma abort_abort [simp]: "abort (abort s) = abort s"
  by (simp add: abort_def)

lemma map_option_Pair_Some:
  "(map_option (\<lambda>u. (b, u)) x = Some (hb, u)) = (x = Some u \<and> hb = b)"
  by (cases x) auto

lemma sort_and_set_empty:
  "candidates (kernel s) = [] \<Longrightarrow> sort_and_set s = Some (abort s)"
  by (simp add: sort_and_set_def)


lemma sort_and_set_Some:
  assumes "candidates (kernel s) \<noteq> []" and "sort_and_set s = Some u"
  shows "candidates (kernel u) = sort_candidates (candidates (kernel s))"
    and "nxt (kernel u) =
           (if dist_less (distance_to_next s) (on_object_tolerance s) then 1 else 0)"
    and "nxt (kernel u) < length (candidates (kernel u))"
    and "object_index u =
           (if dist_less (distance_to_next s) (on_object_tolerance s)
            then index (candidates (kernel u) ! 0) else dindex_invalid)"
    and "trust_level u =
           (if dist_less (distance_to_next s) (on_object_tolerance s)
            then e_high_trust else e_full_trust)"
    and "nav_status u = e_towards_object"
    and "distance_to_next u = Finite (path (candidates (kernel u) ! nxt (kernel u)))"
    and "volume_index u = volume_index s" and "on_object_tolerance u = on_object_tolerance s"
    and "links u = links s"
  using assms by (auto simp add: sort_and_set_def Let_def split: if_splits)

lemma sort_and_set_candidates:
  "sort_and_set s = Some u \<Longrightarrow>
   candidates (kernel u) = sort_candidates (candidates (kernel s))"
  by (auto simp add: sort_and_set_def Let_def abort_def sort_candidates_def split: if_splits)

lemma sort_and_set_status:
  "sort_and_set s = Some u \<Longrightarrow> nav_status u = e_towards_object \<or> nav_status u = e_abort"
  by (auto simp add: sort_and_set_def Let_def abort_def split: if_splits)




lemma finish_sort_and_set:
  "finish (sort_and_set s) =
     map_option (\<lambda>u. (candidates (kernel s) \<noteq> [], u)) (sort_and_set s)"
proof (cases "candidates (kernel s) = []")
  case True
  then show ?thesis
    by (simp add: sort_and_set_empty finish_def kernel_empty_def abort_def)
next
  case False
  show ?thesis
  proof (cases "sort_and_set s")
    case None
    then show ?thesis by (simp add: finish_def)
  next
    case (Some u)
    from sort_and_set_Some(1,6)[OF False Some] False
    show ?thesis
      by (simp add: Some finish_def kernel_empty_def check_volume_switch_def)
  qed
qed

lemma scan_objects_keeps [simp]:
  "volume_index (scan_objects G trk is s) = volume_index s"
  "object_index (scan_objects G trk is s) = object_index s"
  "distance_to_next (scan_objects G trk is s) = distance_to_next s"
  "on_object_tolerance (scan_objects G trk is s) = on_object_tolerance s"
  "trust_level (scan_objects G trk is s) = trust_level s"
  by (induction "is" arbitrary: s; simp add: Let_def split: prod.splits)+



lemma scan_objects_cong:
  "object_index s1 = object_index s2 \<Longrightarrow> links s1 = links s2 \<Longrightarrow>
   candidates (kernel s1) = candidates (kernel s2) \<Longrightarrow>
   candidates (kernel (scan_objects G trk is s1)) = candidates (kernel (scan_objects G trk is s2))"
proof (induction "is" arbitrary: s1 s2)
  case Nil
  then show ?case by simp
next
  case (Cons i "is")
  show ?case
    using Cons.prems
    by (auto simp add: Let_def split: prod.splits intro!: Cons.IH)
qed



text \<open>The cursor loop ends on a valid candidate or, exhausted, in abort.\<close>
lemma update_next_result:
  "update_next G trk s = Some u \<Longrightarrow>
     found G trk s u
     \<or> (nxt (kernel u) = length (candidates (kernel u))
        \<and> nav_status u = e_abort \<and> trust_level u = e_no_trust)"
proof (induction G trk s rule: update_next.induct)
  case (1 G trk s)
  show ?case
  proof (cases "is_exhausted (kernel s)")
    case True
    then have "update_next G trk s = Some (abort s)"
      by (subst update_next.simps) simp
    with 1(2) True show ?thesis by (auto simp add: abort_def is_exhausted_def)
  next
    case nex: False
    show ?thesis
    proof (cases "length (candidates (kernel s)) < nxt (kernel s)")
      case True
      with nex have "update_next G trk s = None"
        by (subst update_next.simps) simp
      with 1(2) show ?thesis by simp
    next
      case inr: False
      define obj_idx where "obj_idx = index (candidates (kernel s) ! nxt (kernel s))"
      obtain sfi0 lnk where il: "intersect G trk obj_idx (links s) = (sfi0, lnk)"
        by (cases "intersect G trk obj_idx (links s)") auto
      define sfi where "sfi = sfi0\<lparr>index := obj_idx, link := fst (edge G obj_idx)\<rparr>"
      define s1 where "s1 = s\<lparr>links := lnk\<rparr>"
      have lt: "nxt (kernel s) < length (candidates (kernel s))"
        using nex inr by (simp add: is_exhausted_def)
      show ?thesis
      proof (cases "istatus sfi = e_inside \<and> obj_idx \<noteq> object_index s1")
        case True
        define s2 where "s2 = s1\<lparr>kernel := (kernel s1)\<lparr>candidates :=
                            (candidates (kernel s1))[nxt (kernel s1) := sfi]\<rparr>,
                        distance_to_next := Finite (path sfi)\<rparr>"
        have eq: "update_next G trk s =
           (if \<bar>path sfi\<bar> < on_object_tolerance s2
                then Some (s2\<lparr>object_index := obj_idx, nav_status := e_on_object,
                              trust_level := e_high_trust\<rparr>)
                else Some (s2\<lparr>nav_status := e_towards_object,
                              trust_level := e_full_trust\<rparr>))"
          using nex inr True il unfolding s2_def s1_def sfi_def obj_idx_def
          by (subst update_next.simps) (simp add: Let_def)
        have "path sfi = path (fst (intersect G trk (index sfi) (links s)))"
          by (simp add: sfi_def il)
        then have ex: "\<exists>lnk. path sfi = path (fst (intersect G trk (index sfi) lnk))"
          by (rule exI)
        have cu: "candidates (kernel u) ! nxt (kernel u) = sfi"
          using 1(2) lt unfolding eq by (auto simp add: s2_def s1_def split: if_splits)
        have "found G trk s u"
          using 1(2) True lt ex unfolding eq found_def cu
          by (auto simp add: s2_def s1_def sfi_def Let_def split: if_splits)
        then show ?thesis ..
      next
        case False
        define s3 where "s3 = s1\<lparr>kernel := (kernel s1)\<lparr>nxt := Suc (nxt (kernel s1))\<rparr>\<rparr>"
        have eq: "update_next G trk s = update_next G trk s3"
          using nex inr False il unfolding s3_def s1_def sfi_def obj_idx_def
          by (subst update_next.simps) (auto simp add: Let_def)
        have ih: "found G trk s3 u \<or> (nxt (kernel u) = length (candidates (kernel u))
             \<and> nav_status u = e_abort \<and> trust_level u = e_no_trust)"
          using 1(1)[OF nex inr obj_idx_def refl il[symmetric] sfi_def s1_def False] 1(2) eq
          by (simp add: s3_def)
        then show ?thesis
          by (auto simp add: found_def s3_def s1_def Let_def)
      qed
    qed
  qed
qed

text \<open>After a kernel update the status is on-object only on the cursor's candidate.\<close>
lemma update_kernel_on_object:
  assumes "update_kernel G trk r s = Some u" and "nav_status u = e_on_object"
  shows "nxt (kernel u) < length (candidates (kernel u))"
    and "index (candidates (kernel u) ! nxt (kernel u)) = object_index u"
    and "link (candidates (kernel u) ! nxt (kernel u)) = fst (edge G (object_index u))"
proof -
  have hi: "update_next G trk s = Some u \<Longrightarrow> found G trk s u"
    using update_next_result[of G trk s u] assms(2) by auto
  have "found G trk s u"
  proof (cases "trust_level s")
    case e_no_trust
    with assms(1) have "sort_and_set (scan_objects G trk [fst r..<snd r] s) = Some u"
      by (simp add: update_kernel_def initialize_kernel_def)
    from sort_and_set_status[OF this] assms(2) show ?thesis by simp
  next
    case e_fair_trust
    with assms(1) obtain s0 where "sort_and_set s0 = Some u"
      by (auto simp add: update_kernel_def Let_def split: prod.splits)
    from sort_and_set_status[OF this] assms(2) show ?thesis by simp
  next
    case e_high_trust
    with assms(1) show ?thesis by (simp add: update_kernel_def hi)
  next
    case e_full_trust
    with assms(1) show ?thesis by (simp add: update_kernel_def hi)
  qed
  then show "nxt (kernel u) < length (candidates (kernel u))"
    and "index (candidates (kernel u) ! nxt (kernel u)) = object_index u"
    and "link (candidates (kernel u) ! nxt (kernel u)) = fst (edge G (object_index u))"
    using assms(2) by (auto simp add: found_def Let_def split: if_splits)
qed

lemma finish_on_object:
  assumes "update_kernel G trk r s = Some u" and "nav_status u = e_on_object"
  shows "finish (Some u) = map_option (Pair True) (check_volume_switch u)"
    and "check_volume_switch u =
      (if volume_index u \<noteq> link (candidates (kernel u) ! nxt (kernel u)) then
         let s1 = u\<lparr>volume_index := link (candidates (kernel u) ! nxt (kernel u)),
                    kernel := clear (kernel u), trust_level := e_no_trust\<rparr>
         in Some (if volume_index s1 = dindex_invalid then exit s1 else s1)
       else Some u)"
proof -
  from update_kernel_on_object(1)[OF assms] have lt: "nxt (kernel u) < length (candidates (kernel u))" .
  then have ne: "candidates (kernel u) \<noteq> []" by auto
  show "finish (Some u) = map_option (Pair True) (check_volume_switch u)"
    using ne by (simp add: finish_def kernel_empty_def split: option.splits)
  show "check_volume_switch u =
      (if volume_index u \<noteq> link (candidates (kernel u) ! nxt (kernel u)) then
         let s1 = u\<lparr>volume_index := link (candidates (kernel u) ! nxt (kernel u)),
                    kernel := clear (kernel u), trust_level := e_no_trust\<rparr>
         in Some (if volume_index s1 = dindex_invalid then exit s1 else s1)
       else Some u)"
    using lt assms(2) by (simp add: check_volume_switch_def)
qed


lemma status_no_trust:
  "trust_level s = e_no_trust \<Longrightarrow>
   status G s trk =
     map_option
       (\<lambda>u. (candidates (kernel (scan_objects G trk
                 [fst (full_range G (volume_index s))..<snd (full_range G (volume_index s))] s))
               \<noteq> [], u))
       (sort_and_set (scan_objects G trk
          [fst (full_range G (volume_index s))..<snd (full_range G (volume_index s))] s))"
  by (simp add: status_def update_kernel_def initialize_kernel_def finish_sort_and_set)

lemma status_no_trust_Some:
  assumes "trust_level s = e_no_trust" and "status G s trk = Some (hb, u)"
  shows "sort_and_set (scan_objects G trk
       [fst (full_range G (volume_index s))..<snd (full_range G (volume_index s))] s) = Some u"
    and "hb = (candidates (kernel (scan_objects G trk
       [fst (full_range G (volume_index s))..<snd (full_range G (volume_index s))] s)) \<noteq> [])"
  using assms(2) unfolding status_no_trust[OF assms(1)]
  by (simp_all add: map_option_Pair_Some)

lemma reset_if_exhausted_keeps [simp]:
  "volume_index (reset_if_exhausted s) = volume_index s"
  "object_index (reset_if_exhausted s) = object_index s"
  "links (reset_if_exhausted s) = links s"
  "distance_to_next (reset_if_exhausted s) = distance_to_next s"
  "on_object_tolerance (reset_if_exhausted s) = on_object_tolerance s"
  by (simp_all add: reset_if_exhausted_def)

lemma reset_if_exhausted_no_trust:
  "trust_level s = e_no_trust \<or> is_exhausted (kernel s) \<Longrightarrow>
   trust_level (reset_if_exhausted s) = e_no_trust"
  by (auto simp add: reset_if_exhausted_def)

lemma reset_if_exhausted_empty:
  "is_exhausted (kernel s) \<or> candidates (kernel s) = [] \<Longrightarrow>
   candidates (kernel (reset_if_exhausted s)) = []"
  by (auto simp add: reset_if_exhausted_def clear_def)

lemma target_rescan:
  assumes "trust_level s \<noteq> e_full_trust"
    and "trust_level s = e_no_trust \<or> is_exhausted (kernel s)"
  shows "target G s trk =
     map_option
       (\<lambda>u. (candidates (kernel (scan_objects G trk
                 [fst (full_range G (volume_index s))..<snd (full_range G (volume_index s))]
                 (reset_if_exhausted s))) \<noteq> [], u))
       (sort_and_set (scan_objects G trk
          [fst (full_range G (volume_index s))..<snd (full_range G (volume_index s))]
          (reset_if_exhausted s)))"
  using assms(1) reset_if_exhausted_no_trust[OF assms(2)]
  by (simp add: target_def update_kernel_def initialize_kernel_def finish_sort_and_set)

lemma target_rescan_Some:
  assumes "trust_level s \<noteq> e_full_trust"
    and "trust_level s = e_no_trust \<or> is_exhausted (kernel s)"
    and "target G s trk = Some (hb, u)"
  shows "sort_and_set (scan_objects G trk
       [fst (full_range G (volume_index s))..<snd (full_range G (volume_index s))]
       (reset_if_exhausted s)) = Some u"
    and "hb = (candidates (kernel (scan_objects G trk
       [fst (full_range G (volume_index s))..<snd (full_range G (volume_index s))]
       (reset_if_exhausted s))) \<noteq> [])"
  using assms(3) unfolding target_rescan[OF assms(1,2)]
  by (simp_all add: map_option_Pair_Some)



lemma status_rescan_same:
  assumes "volume_index s1 = volume_index s2" and "object_index s1 = object_index s2"
    and "links s1 = links s2"
    and t1: "trust_level s1 = e_no_trust" and t2: "trust_level s2 = e_no_trust"
    and e1: "candidates (kernel s1) = []" and e2: "candidates (kernel s2) = []"
    and st1: "status G s1 trk = Some (h1, u1)" and st2: "status G s2 trk = Some (h2, u2)"
  shows "candidates (kernel u1) = candidates (kernel u2) \<and> h1 = h2"
proof -
  let ?is = "[fst (full_range G (volume_index s1))..<snd (full_range G (volume_index s1))]"
  have sc: "candidates (kernel (scan_objects G trk ?is s1))
          = candidates (kernel (scan_objects G trk ?is s2))"
    using assms(2,3) e1 e2 by (intro scan_objects_cong) simp_all
  note a = status_no_trust_Some[OF t1 st1]
  note b = status_no_trust_Some[OF t2 st2, folded assms(1)]
  from sort_and_set_candidates[OF a(1)] sort_and_set_candidates[OF b(1)] sc a(2) b(2)
  show ?thesis by simp
qed

lemma target_rescan_same:
  assumes "volume_index s1 = volume_index s2" and "object_index s1 = object_index s2"
    and "links s1 = links s2"
    and t1: "trust_level s1 \<noteq> e_full_trust" and t2: "trust_level s2 \<noteq> e_full_trust"
    and x1: "is_exhausted (kernel s1)" and x2: "is_exhausted (kernel s2)"
    and tg1: "target G s1 trk = Some (h1, u1)" and tg2: "target G s2 trk = Some (h2, u2)"
  shows "candidates (kernel u1) = candidates (kernel u2) \<and> h1 = h2"
proof -
  let ?is = "[fst (full_range G (volume_index s1))..<snd (full_range G (volume_index s1))]"
  have e: "candidates (kernel (reset_if_exhausted s1)) = []"
    "candidates (kernel (reset_if_exhausted s2)) = []"
    using x1 x2 by (auto intro: reset_if_exhausted_empty)
  have sc: "candidates (kernel (scan_objects G trk ?is (reset_if_exhausted s1)))
          = candidates (kernel (scan_objects G trk ?is (reset_if_exhausted s2)))"
    using assms(2,3) e by (intro scan_objects_cong) simp_all
  from x1 have y1: "trust_level s1 = e_no_trust \<or> is_exhausted (kernel s1)" by simp
  from x2 have y2: "trust_level s2 = e_no_trust \<or> is_exhausted (kernel s2)" by simp
  note a = target_rescan_Some[OF t1 y1 tg1]
  note b = target_rescan_Some[OF t2 y2 tg2, folded assms(1)]
  from sort_and_set_candidates[OF a(1)] sort_and_set_candidates[OF b(1)] sc a(2) b(2)
  show ?thesis by simp
qed

section \<open>The model follows the run of the test\<close>

text \<open>
  Step by step the toy run shows what the test asserts of its own geometry: towards the
  portal at full trust; \<open>target\<close> changes nothing; half way at full trust again; on the
  portal the volume switches, the kernel is exhausted and the trust is gone; the scan of
  the new volume keeps the adjacent portal, skips it and ends at high trust; on the
  surface at high trust with the cursor unmoved; towards the next candidate at full
  trust; on the last portal the status is on-target, the volume invalid, the trust full.
\<close>
lemma toy_run_first_status: "status toy_detector toy_start (toy_track 0) = Some (True, toy_state1)"
  by (simp add: toy_defs nav_defs)

lemma toy_run_first_target: "target toy_detector toy_state1 (toy_track 0) = Some (True, toy_state1)"
  by (simp add: toy_defs nav_defs)

lemma toy_run_half_step: "status toy_detector (set_trust_level e_high_trust toy_state1) (toy_track (27 / 2))
   = Some (True, toy_state2)"
  by (simp add: toy_defs nav_defs)

lemma toy_run_on_portal: "status toy_detector (set_trust_level e_high_trust toy_state2) (toy_track 27)
   = Some (True, toy_entered)"
  by (simp add: toy_defs nav_defs)

lemma toy_run_target_in_volume: "target toy_detector toy_entered (toy_track 27) = Some (True, toy_scanned)"
  by (simp add: toy_defs nav_defs)

lemma toy_run_on_surface: "status toy_detector toy_scanned (toy_track 30) = Some (True, toy_on_surface)"
  by (simp add: toy_defs nav_defs)

lemma toy_run_next_target: "target toy_detector toy_on_surface (toy_track 30) = Some (True, toy_towards_exit)"
  by (simp add: toy_defs nav_defs)

lemma toy_run_exit: "status toy_detector toy_towards_exit (toy_track 40) = Some (True, toy_exit)"
  by (simp add: toy_defs nav_defs)

text \<open>
  Two runs the test does not make. A track deflected on surface 2 exhausts the kernel:
  the status is abort and yet the heartbeat is true, since the kernel is not empty. The
  target call after it, still at 30, keeps one candidate and skips it: the cursor is
  read at the end.
\<close>
lemma toy_run_deflected: "status toy_detector toy_on_surface (toy_track_off 30) = Some (True, toy_lost)"
  by (simp add: toy_defs nav_defs)

lemma toy_run_undefined: "target toy_detector toy_lost (toy_track 30) = None"
  by (simp add: toy_defs nav_defs)

section \<open>Volume switch\<close>

text \<open>
  C1, as amended. When the status after the kernel update of a \<open>status\<close> or \<open>target\<close>
  call is on-object and the candidate at the cursor, which is the occupied surface,
  links to a volume \<open>v\<close> that is neither the current volume nor the exit sentinel, that
  same call returns heartbeat true with the current volume \<open>v\<close>, the kernel cleared (no
  candidates, cursor at the end) and no trust. For \<open>target\<close> the update is the one it
  runs below full trust, after the reset of an exhausted kernel.
\<close>
theorem volume_switch_to_linked_volume:
  assumes "nav_status u = e_on_object"
    and "link (candidates (kernel u) ! nxt (kernel u)) = v"
    and "v \<noteq> volume_index u" and "v \<noteq> dindex_invalid"
  shows "(update_kernel G trk (full_range G (volume_index s)) s = Some u \<longrightarrow>
            status G s trk =
              Some (True, u\<lparr>volume_index := v, kernel := clear (kernel u),
                             trust_level := e_no_trust\<rparr>)
          \<and> v = fst (edge G (object_index u)))
       \<and> (trust_level s \<noteq> e_full_trust
          \<and> update_kernel G trk (full_range G (volume_index s)) (reset_if_exhausted s) = Some u
          \<longrightarrow>
            target G s trk =
              Some (True, u\<lparr>volume_index := v, kernel := clear (kernel u),
                             trust_level := e_no_trust\<rparr>)
          \<and> v = fst (edge G (object_index u)))"
proof (intro conjI impI)
  assume a: "update_kernel G trk (full_range G (volume_index s)) s = Some u"
  from finish_on_object[OF a assms(1)] assms(2-4)
  show "status G s trk =
      Some (True, u\<lparr>volume_index := v, kernel := clear (kernel u), trust_level := e_no_trust\<rparr>)"
    by (simp add: status_def a Let_def)
  from update_kernel_on_object(3)[OF a assms(1)] assms(2)
  show "v = fst (edge G (object_index u))" by simp
next
  assume "trust_level s \<noteq> e_full_trust
    \<and> update_kernel G trk (full_range G (volume_index s)) (reset_if_exhausted s) = Some u"
  then have t: "trust_level s \<noteq> e_full_trust"
    and a: "update_kernel G trk (full_range G (volume_index s)) (reset_if_exhausted s) = Some u"
    by simp_all
  from finish_on_object[OF a assms(1)] assms(2-4) t
  show "target G s trk =
      Some (True, u\<lparr>volume_index := v, kernel := clear (kernel u), trust_level := e_no_trust\<rparr>)"
    by (simp add: target_def a Let_def)
  from update_kernel_on_object(3)[OF a assms(1)] assms(2)
  show "v = fst (edge G (object_index u))" by simp
qed

text \<open>
  On the toy geometry: the track reaches portal 0 of volume 0, which links to volume 1.
\<close>
theorem volume_switch_to_linked_volume_witness:
  "nav_status toy_on_portal = e_on_object
   \<and> link (candidates (kernel toy_on_portal) ! nxt (kernel toy_on_portal)) = 1
   \<and> volume_index toy_on_portal = 0
   \<and> update_kernel toy_detector (toy_track 27)
        (full_range toy_detector (volume_index (set_trust_level e_high_trust toy_state2)))
        (set_trust_level e_high_trust toy_state2) = Some toy_on_portal
   \<and> status toy_detector (set_trust_level e_high_trust toy_state2) (toy_track 27)
        = Some (True, toy_entered)
   \<and> target toy_detector (set_trust_level e_high_trust toy_state2) (toy_track 27)
        = Some (True, toy_entered)"
proof -
  let ?s = "set_trust_level e_high_trust toy_state2"
  have a: "nav_status toy_on_portal = e_on_object" by (simp add: toy_defs nav_defs)
  have b: "link (candidates (kernel toy_on_portal) ! nxt (kernel toy_on_portal)) = 1"
    by (simp add: toy_defs nav_defs)
  have c: "(1::nat) \<noteq> volume_index toy_on_portal" by (simp add: toy_defs nav_defs)
  have d: "(1::nat) \<noteq> dindex_invalid" by (simp add: toy_defs nav_defs)
  have u: "update_kernel toy_detector (toy_track 27) (full_range toy_detector (volume_index ?s)) ?s
      = Some toy_on_portal"
    by (simp add: toy_defs nav_defs)
  have r: "reset_if_exhausted ?s = ?s" by (simp add: toy_defs nav_defs)
  have t: "trust_level ?s \<noteq> e_full_trust" by (simp add: toy_defs nav_defs)
  have e: "toy_on_portal\<lparr>volume_index := 1, kernel := clear (kernel toy_on_portal),
             trust_level := e_no_trust\<rparr> = toy_entered"
    by (simp add: toy_defs nav_defs)
  have v: "volume_index toy_on_portal = 0" by (simp add: toy_defs nav_defs)
  from volume_switch_to_linked_volume[OF a b c d, of toy_detector "toy_track 27" ?s] u r t
  have "status toy_detector ?s (toy_track 27) = Some (True, toy_entered)"
    and "target toy_detector ?s (toy_track 27) = Some (True, toy_entered)"
    unfolding e by simp_all
  with a b v u show ?thesis by simp
qed

text \<open>
  C1 as stated fails when the link is the exit sentinel: the track reaches portal 3 of
  volume 1, the link differs from the current volume, and the call returns with full
  trust, not with no trust.
\<close>
theorem volume_switch_exit_counterexample:
  "update_kernel toy_detector (toy_track 40)
      (full_range toy_detector (volume_index toy_towards_exit)) toy_towards_exit
      = Some toy_on_exit_portal
   \<and> nav_status toy_on_exit_portal = e_on_object
   \<and> link (candidates (kernel toy_on_exit_portal) ! nxt (kernel toy_on_exit_portal))
       \<noteq> volume_index toy_on_exit_portal
   \<and> status toy_detector toy_towards_exit (toy_track 40) = Some (True, toy_exit)
   \<and> trust_level toy_exit = e_full_trust
   \<and> trust_level toy_exit \<noteq> e_no_trust"
  by (simp add: toy_defs nav_defs)

text \<open>
  C2. When the status after the kernel update of a \<open>status\<close> or \<open>target\<close> call is
  on-object, the candidate at the cursor links to the exit sentinel and the current
  volume is a volume of the geometry (not the sentinel already), that call returns
  heartbeat true with status on-target, the volume the invalid sentinel and full trust.
\<close>
theorem exit_sentinel_reaches_on_target:
  assumes "nav_status u = e_on_object"
    and "link (candidates (kernel u) ! nxt (kernel u)) = dindex_invalid"
    and "volume_index u \<noteq> dindex_invalid"
  shows "(update_kernel G trk (full_range G (volume_index s)) s = Some u \<longrightarrow>
            status G s trk =
              Some (True, u\<lparr>volume_index := dindex_invalid, kernel := clear (kernel u),
                             nav_status := e_on_target, trust_level := e_full_trust\<rparr>))
       \<and> (trust_level s \<noteq> e_full_trust
          \<and> update_kernel G trk (full_range G (volume_index s)) (reset_if_exhausted s) = Some u
          \<longrightarrow>
            target G s trk =
              Some (True, u\<lparr>volume_index := dindex_invalid, kernel := clear (kernel u),
                             nav_status := e_on_target, trust_level := e_full_trust\<rparr>))"
proof (intro conjI impI)
  assume a: "update_kernel G trk (full_range G (volume_index s)) s = Some u"
  from finish_on_object[OF a assms(1)] assms(2,3)
  show "status G s trk =
      Some (True, u\<lparr>volume_index := dindex_invalid, kernel := clear (kernel u),
                     nav_status := e_on_target, trust_level := e_full_trust\<rparr>)"
    by (simp add: status_def a Let_def exit_def)
next
  assume "trust_level s \<noteq> e_full_trust
    \<and> update_kernel G trk (full_range G (volume_index s)) (reset_if_exhausted s) = Some u"
  then have t: "trust_level s \<noteq> e_full_trust"
    and a: "update_kernel G trk (full_range G (volume_index s)) (reset_if_exhausted s) = Some u"
    by simp_all
  from finish_on_object[OF a assms(1)] assms(2,3) t
  show "target G s trk =
      Some (True, u\<lparr>volume_index := dindex_invalid, kernel := clear (kernel u),
                     nav_status := e_on_target, trust_level := e_full_trust\<rparr>)"
    by (simp add: target_def a Let_def exit_def)
qed

text \<open>
  On the toy geometry: the track reaches portal 3 of volume 1, which leaves the world.
\<close>
theorem exit_sentinel_reaches_on_target_witness:
  "nav_status toy_on_exit_portal = e_on_object
   \<and> link (candidates (kernel toy_on_exit_portal) ! nxt (kernel toy_on_exit_portal))
       = dindex_invalid
   \<and> volume_index toy_on_exit_portal \<noteq> dindex_invalid
   \<and> update_kernel toy_detector (toy_track 40)
        (full_range toy_detector (volume_index toy_towards_exit)) toy_towards_exit
        = Some toy_on_exit_portal
   \<and> status toy_detector toy_towards_exit (toy_track 40) = Some (True, toy_exit)
   \<and> target toy_detector (set_trust_level e_high_trust toy_towards_exit) (toy_track 40)
        = Some (True, toy_exit)
   \<and> nav_status toy_exit = e_on_target \<and> volume_index toy_exit = dindex_invalid
   \<and> trust_level toy_exit = e_full_trust"
proof -
  let ?s = "set_trust_level e_high_trust toy_towards_exit"
  have a: "nav_status toy_on_exit_portal = e_on_object" by (simp add: toy_defs nav_defs)
  have b: "link (candidates (kernel toy_on_exit_portal) ! nxt (kernel toy_on_exit_portal))
       = dindex_invalid" by (simp add: toy_defs nav_defs)
  have c: "volume_index toy_on_exit_portal \<noteq> dindex_invalid" by (simp add: toy_defs nav_defs)
  have u1: "update_kernel toy_detector (toy_track 40)
        (full_range toy_detector (volume_index toy_towards_exit)) toy_towards_exit
        = Some toy_on_exit_portal" by (simp add: toy_defs nav_defs)
  have u2: "update_kernel toy_detector (toy_track 40)
        (full_range toy_detector (volume_index ?s)) (reset_if_exhausted ?s)
        = Some toy_on_exit_portal" by (simp add: toy_defs nav_defs)
  have t: "trust_level ?s \<noteq> e_full_trust" by (simp add: toy_defs nav_defs)
  have e: "toy_on_exit_portal\<lparr>volume_index := dindex_invalid,
             kernel := clear (kernel toy_on_exit_portal),
             nav_status := e_on_target, trust_level := e_full_trust\<rparr> = toy_exit"
    by (simp add: toy_defs nav_defs)
  have x: "nav_status toy_exit = e_on_target \<and> volume_index toy_exit = dindex_invalid
   \<and> trust_level toy_exit = e_full_trust" by (simp add: toy_defs nav_defs)
  from exit_sentinel_reaches_on_target[OF a b c, of toy_detector "toy_track 40" toy_towards_exit]
    u1
  have s1: "status toy_detector toy_towards_exit (toy_track 40) = Some (True, toy_exit)"
    unfolding e by simp
  from exit_sentinel_reaches_on_target[OF a b c, of toy_detector "toy_track 40" ?s] u2 t
  have s2: "target toy_detector ?s (toy_track 40) = Some (True, toy_exit)"
    unfolding e by simp
  from a b c u1 s1 s2 x show ?thesis by simp
qed

section \<open>Kernel update by trust level\<close>

text \<open>
  C3. A kernel update at high trust that finds a valid candidate (it returns with the
  cursor on an entry of the kernel): that entry is inside, is not the surface occupied
  before, and carries the path of a new intersection with the track; when its path
  length is within the on-object tolerance the status is on-object, the surface is
  the occupied one and the trust level is high trust; otherwise the status is
  towards-object and the trust level is full trust.
\<close>
theorem high_trust_update_valid_candidate:
  assumes "trust_level s = e_high_trust"
    and "update_kernel G trk r s = Some u"
    and "nxt (kernel u) < length (candidates (kernel u))"
  shows "(let c = candidates (kernel u) ! nxt (kernel u) in
      istatus c = e_inside \<and> index c \<noteq> object_index s
      \<and> (\<exists>lnk. path c = path (fst (intersect G trk (index c) lnk)))
      \<and> distance_to_next u = Finite (path c)
      \<and> (if \<bar>path c\<bar> < on_object_tolerance s
          then nav_status u = e_on_object \<and> trust_level u = e_high_trust
               \<and> object_index u = index c
          else nav_status u = e_towards_object \<and> trust_level u = e_full_trust))"
proof -
  from assms(1,2) have "update_next G trk s = Some u"
    by (simp add: update_kernel_def)
  from update_next_result[OF this] assms(3) have "found G trk s u" by auto
  then show ?thesis
    by (auto simp add: found_def Let_def split: if_splits)
qed

text \<open>
  On the toy geometry: on portal 0 (track at 27) and half way to it.
\<close>
theorem high_trust_update_valid_candidate_witness:
  "trust_level (set_trust_level e_high_trust toy_state2) = e_high_trust
   \<and> update_kernel toy_detector (toy_track 27) (full_range toy_detector 0)
        (set_trust_level e_high_trust toy_state2) = Some toy_on_portal
   \<and> nxt (kernel toy_on_portal) < length (candidates (kernel toy_on_portal))
   \<and> nav_status toy_on_portal = e_on_object \<and> trust_level toy_on_portal = e_high_trust
   \<and> trust_level (set_trust_level e_high_trust toy_state1) = e_high_trust
   \<and> update_kernel toy_detector (toy_track (27 / 2)) (full_range toy_detector 0)
        (set_trust_level e_high_trust toy_state1) = Some toy_state2
   \<and> nxt (kernel toy_state2) < length (candidates (kernel toy_state2))
   \<and> nav_status toy_state2 = e_towards_object \<and> trust_level toy_state2 = e_full_trust"
proof -
  let ?a = "set_trust_level e_high_trust toy_state2"
  let ?b = "set_trust_level e_high_trust toy_state1"
  have ta: "trust_level ?a = e_high_trust" and tb: "trust_level ?b = e_high_trust"
    by (simp_all add: toy_defs nav_defs)
  have ua: "update_kernel toy_detector (toy_track 27) (full_range toy_detector 0) ?a
      = Some toy_on_portal" by (simp add: toy_defs nav_defs)
  have ub: "update_kernel toy_detector (toy_track (27 / 2)) (full_range toy_detector 0) ?b
      = Some toy_state2" by (simp add: toy_defs nav_defs)
  have na: "nxt (kernel toy_on_portal) < length (candidates (kernel toy_on_portal))"
    and nb: "nxt (kernel toy_state2) < length (candidates (kernel toy_state2))"
    by (simp_all add: toy_defs nav_defs)
  have pa: "path (candidates (kernel toy_on_portal) ! nxt (kernel toy_on_portal)) = 0"
    and pb: "path (candidates (kernel toy_state2) ! nxt (kernel toy_state2)) = 27 / 2"
    and tol: "on_object_tolerance ?a = 1 / 1000" "on_object_tolerance ?b = 1 / 1000"
    by (simp_all add: toy_defs nav_defs)
  from high_trust_update_valid_candidate[OF ta ua na] pa tol
  have ra: "nav_status toy_on_portal = e_on_object \<and> trust_level toy_on_portal = e_high_trust"
    by (simp add: Let_def)
  from high_trust_update_valid_candidate[OF tb ub nb] pb tol
  have rb: "nav_status toy_state2 = e_towards_object \<and> trust_level toy_state2 = e_full_trust"
    by (simp add: Let_def)
  from ta tb ua ub na nb ra rb show ?thesis by simp
qed




section \<open>Target: exhaustion and full trust\<close>




text \<open>
  C6. At full trust \<open>target\<close> changes no component of the state and returns
  heartbeat true; so does a second \<open>target\<close> call right after it.
\<close>
theorem target_full_trust_noop:
  assumes "trust_level s = e_full_trust"
  shows "target G s trk = Some (True, s)
     \<and> Option.bind (target G s trk) (\<lambda>r. target G (snd r) trk) = Some (True, s)"
  using assms by (simp add: target_def)

text \<open>
  On the toy geometry: the state after the first status call is at full trust.
\<close>
theorem target_full_trust_noop_witness:
  "trust_level toy_state1 = e_full_trust
   \<and> target toy_detector toy_state1 (toy_track 0) = Some (True, toy_state1)"
proof -
  have h: "trust_level toy_state1 = e_full_trust" by (simp add: toy_defs nav_defs)
  from target_full_trust_noop[OF h, of toy_detector "toy_track 0"] h
  show ?thesis by simp
qed

section \<open>Cursor, invariant and determinism of a re-population\<close>







text \<open>
  C9, as amended. Two scans of the same volume with the same track into an empty
  kernel, from states that agree on the occupied surface and on the links handed to
  the intersection primitive, give the same candidate sequence and the same heartbeat,
  whatever else the two states hold: through \<open>status\<close> at no trust on kernels without
  candidates, and through \<open>target\<close> below full trust on exhausted kernels.
\<close>
theorem rescan_deterministic:
  assumes "volume_index s1 = volume_index s2" and "object_index s1 = object_index s2"
    and "links s1 = links s2"
  shows "(trust_level s1 = e_no_trust \<and> trust_level s2 = e_no_trust
          \<and> candidates (kernel s1) = [] \<and> candidates (kernel s2) = []
          \<and> status G s1 trk = Some (h1, u1) \<and> status G s2 trk = Some (h2, u2)
          \<longrightarrow> candidates (kernel u1) = candidates (kernel u2) \<and> h1 = h2)
       \<and> (trust_level s1 \<noteq> e_full_trust \<and> trust_level s2 \<noteq> e_full_trust
          \<and> is_exhausted (kernel s1) \<and> is_exhausted (kernel s2)
          \<and> target G s1 trk = Some (h1, u1) \<and> target G s2 trk = Some (h2, u2)
          \<longrightarrow> candidates (kernel u1) = candidates (kernel u2) \<and> h1 = h2)"
  using status_rescan_same[OF assms, of G trk h1 u1 h2 u2]
    target_rescan_same[OF assms, of G trk h1 u1 h2 u2]
  by blast

text \<open>
  On the toy geometry: the state just entered into volume 1, and the same with another
  tolerance.
\<close>
theorem rescan_deterministic_witness:
  "volume_index toy_entered = volume_index toy_entered_wide
   \<and> object_index toy_entered = object_index toy_entered_wide
   \<and> links toy_entered = links toy_entered_wide
   \<and> toy_entered \<noteq> toy_entered_wide
   \<and> status toy_detector toy_entered (toy_track 27) = Some (True, toy_scanned)
   \<and> map_option (\<lambda>x. candidates (kernel (snd x)))
        (status toy_detector toy_entered_wide (toy_track 27))
       = Some (candidates (kernel toy_scanned))
   \<and> target toy_detector toy_entered (toy_track 27) = Some (True, toy_scanned)
   \<and> map_option (\<lambda>x. candidates (kernel (snd x)))
        (target toy_detector toy_entered_wide (toy_track 27))
       = Some (candidates (kernel toy_scanned))"
proof -
  have h: "volume_index toy_entered = volume_index toy_entered_wide"
    "object_index toy_entered = object_index toy_entered_wide"
    "links toy_entered = links toy_entered_wide"
    by (simp_all add: toy_defs nav_defs)
  have d: "toy_entered \<noteq> toy_entered_wide"
    by (simp add: toy_defs nav_defs)
  have t: "trust_level toy_entered = e_no_trust" "trust_level toy_entered_wide = e_no_trust"
    "candidates (kernel toy_entered) = []" "candidates (kernel toy_entered_wide) = []"
    by (simp_all add: toy_defs nav_defs)
  have x: "trust_level toy_entered \<noteq> e_full_trust" "trust_level toy_entered_wide \<noteq> e_full_trust"
    "is_exhausted (kernel toy_entered)" "is_exhausted (kernel toy_entered_wide)"
    by (simp_all add: toy_defs nav_defs)
  have s1: "status toy_detector toy_entered (toy_track 27) = Some (True, toy_scanned)"
    and g1: "target toy_detector toy_entered (toy_track 27) = Some (True, toy_scanned)"
    by (simp_all add: toy_defs nav_defs)
  obtain h2 u2 where s2: "status toy_detector toy_entered_wide (toy_track 27) = Some (h2, u2)"
    by (simp add: toy_defs nav_defs)
  obtain h3 u3 where g2: "target toy_detector toy_entered_wide (toy_track 27) = Some (h3, u3)"
    by (simp add: toy_defs nav_defs)
  from rescan_deterministic[OF h, of toy_detector "toy_track 27" True toy_scanned h2 u2] t s1 s2
  have r1: "candidates (kernel toy_scanned) = candidates (kernel u2)" by blast
  from rescan_deterministic[OF h, of toy_detector "toy_track 27" True toy_scanned h3 u3] x g1 g2
  have r2: "candidates (kernel toy_scanned) = candidates (kernel u3)" by blast
  from h d s1 s2 g1 g2 r1 r2 show ?thesis by simp
qed

text \<open>
  C9 as stated fails. Through \<open>target\<close> on two exhausted kernels of volume 1 at the
  same track: entered from portal 0 the scan keeps surfaces 1, 2, 3; with surface 2
  still the occupied object it keeps 1 and 3. Through \<open>status\<close> at no trust: on the
  kernel just cleared the candidates are 1, 2, 3; on the scanned kernel, which is not
  cleared, they are 1, 2, 2, 3, 3.
\<close>
theorem rescan_deterministic_counterexample:
  "volume_index toy_entered = volume_index (set_trust_level e_no_trust toy_scanned)
   \<and> status toy_detector toy_entered (toy_track 27) = Some (True, toy_scanned)
   \<and> status toy_detector (set_trust_level e_no_trust toy_scanned) (toy_track 27)
       = Some (True, toy_appended)
   \<and> length (candidates (kernel toy_scanned)) = 3
   \<and> length (candidates (kernel toy_appended)) = 5
   \<and> volume_index toy_entered = volume_index toy_lost
   \<and> is_exhausted (kernel toy_entered) \<and> is_exhausted (kernel toy_lost)
   \<and> target toy_detector toy_entered (toy_track 27) = Some (True, toy_scanned)
   \<and> target toy_detector toy_lost (toy_track 27) = Some (True, toy_rescanned)
   \<and> length (candidates (kernel toy_rescanned)) = 2
   \<and> candidates (kernel toy_scanned) \<noteq> candidates (kernel toy_appended)
   \<and> candidates (kernel toy_scanned) \<noteq> candidates (kernel toy_rescanned)"
  by (simp add: toy_defs nav_defs)

section \<open>The freshly constructed state\<close>

text \<open>
  C10. A freshly constructed state on which only the initial volume has been set has an
  empty kernel (size 0), trust level no trust, status unknown, and the volume that was
  set.
\<close>
theorem fresh_state_after_set_initial_volume:
  "kernel_size (kernel (set_initial_volume v default_state)) = 0
   \<and> candidates (kernel (set_initial_volume v default_state)) = []
   \<and> trust_level (set_initial_volume v default_state) = e_no_trust
   \<and> nav_status (set_initial_volume v default_state) = e_unknown
   \<and> volume_index (set_initial_volume v default_state) = v"
  by (simp add: set_initial_volume_def default_state_def kernel_size_def)

end
